theory Spec2Isabelle
  imports Complex_Main "HOL-Library.Sublist"
begin

section \<open>Data model of the recommender (src/recommender.py)\<close>

text \<open>
  One row of \<^verbatim>\<open>movies_df\<close>. The keys are those of the dictionaries built in
  \<^verbatim>\<open>prepare_movie_data\<close>; the key \<^verbatim>\<open>id\<close> is named \<open>movie_id\<close> here (as the loop
  variable of \<^verbatim>\<open>get_recommendations\<close>), because \<open>id\<close> is HOL's identity function.
  \<open>combined_features\<close> is \<open>None\<close> where the record has no such key (pandas stores
  NaN there). A Python float is modelled as the real number it denotes; the
  arithmetic on floats is not modelled but passed in (see \<open>np_mean\<close> below).
\<close>

record movie =
  movie_id :: string
  title :: string
  overview :: string
  genres :: string
  cast :: string
  poster_path :: string
  vote_average :: real
  release_date :: string
  combined_features :: "string option"

text \<open>
  The instance attributes that the build and the query read or write:
  \<^verbatim>\<open>self.movies_df\<close>, \<^verbatim>\<open>self.similarity_matrix\<close> (a two-dimensional array, as the
  list of its rows) and the \<^verbatim>\<open>max_features\<close> of \<^verbatim>\<open>self.vectorizer\<close> (\<open>None\<close> for
  the vectorizer made in \<^verbatim>\<open>__init__\<close>).
\<close>

record recommender =
  movies_df :: "movie list option"
  similarity_matrix :: "real list list option"
  vectorizer_max_features :: "nat option"

text \<open>The exceptions of the model; \<open>OtherException\<close> is any exception that is
  neither an IndexError nor a ValueError.\<close>

datatype error = IndexError | ValueError | OtherException

section \<open>get_recommendations\<close>

text \<open>
  \<^verbatim>\<open>self.movies_df[self.movies_df['id'].isin(selected_movie_ids)].index.tolist()\<close>:
  the positions of the rows whose id is among the selected ones, in catalog order.
\<close>

definition valid_selected_indices :: "movie list \<Rightarrow> string list \<Rightarrow> nat list" where
  "valid_selected_indices df selected_movie_ids =
     filter (\<lambda>i. movie_id (df ! i) \<in> set selected_movie_ids) [0..<length df]"

text \<open>Number of columns of a two-dimensional array given by its rows.\<close>

definition ncols :: "real list list \<Rightarrow> nat" where
  "ncols M = (case M of [] \<Rightarrow> 0 | r # _ \<Rightarrow> length r)"

text \<open>
  \<^verbatim>\<open>np.mean(self.similarity_matrix[valid_selected_indices, :], axis=0)\<close>: one score
  per column of the matrix, computed from the entries of the selected rows in
  that column. The two numpy calls of the query are parameters of the model:
  \<open>np_mean\<close> is the mean of one column as numpy computes it in binary64 (the
  exact mean up to rounding), and \<open>np_argsort\<close> is \<^verbatim>\<open>np.argsort\<close> with its default,
  unstable sort. The scores are only computed for a non-empty list of indices,
  all of them rows of the matrix.
\<close>

definition avg_similarity_scores ::
  "(real list \<Rightarrow> real) \<Rightarrow> real list list \<Rightarrow> nat list \<Rightarrow> real list" where
  "avg_similarity_scores np_mean M valid =
     map (\<lambda>j. np_mean (map (\<lambda>i. M ! i ! j) valid)) [0..<ncols M]"

text \<open>
  The loop over \<^verbatim>\<open>sorted_movie_indices\<close> (lines 199 to 210), returning the catalog
  positions of the accepted candidates in the order of acceptance. \<open>seen\<close> is
  \<^verbatim>\<open>seen_movie_ids\<close>, \<open>recs\<close> the positions accepted so far.
\<close>

fun walk :: "movie list \<Rightarrow> int \<Rightarrow> nat list \<Rightarrow> string set \<Rightarrow> nat list \<Rightarrow> nat list" where
  "walk df num_recommendations [] seen recs = recs"
| "walk df num_recommendations (idx # rest) seen recs =
     (if idx \<ge> length df then walk df num_recommendations rest seen recs
      else if movie_id (df ! idx) \<notin> seen then
        (if int (length (recs @ [idx])) \<ge> num_recommendations then recs @ [idx]
         else walk df num_recommendations rest (insert (movie_id (df ! idx)) seen) (recs @ [idx]))
      else walk df num_recommendations rest seen recs)"

text \<open>Line 194: \<^verbatim>\<open>np.argsort(avg_similarity_scores)[::-1]\<close>.\<close>

definition sorted_movie_indices ::
  "(real list \<Rightarrow> real) \<Rightarrow> (real list \<Rightarrow> nat list) \<Rightarrow> real list list \<Rightarrow> nat list \<Rightarrow> nat list" where
  "sorted_movie_indices np_mean np_argsort M valid =
     rev (np_argsort (avg_similarity_scores np_mean M valid))"

text \<open>
  The positions recommended for a built matrix \<open>M\<close> and a non-empty catalog \<open>df\<close>:
  lines 190 to 210.
\<close>

definition recommended_indices ::
  "(real list \<Rightarrow> real) \<Rightarrow> (real list \<Rightarrow> nat list) \<Rightarrow> real list list \<Rightarrow> movie list \<Rightarrow>
   string list \<Rightarrow> int \<Rightarrow> nat list" where
  "recommended_indices np_mean np_argsort M df selected_movie_ids num_recommendations =
     walk df num_recommendations
       (sorted_movie_indices np_mean np_argsort M (valid_selected_indices df selected_movie_ids))
       (set selected_movie_ids) []"

text \<open>
  \<^verbatim>\<open>get_recommendations\<close>. Indexing the matrix with a row position it does not
  have raises IndexError; every other path returns a list of rows of the catalog.
\<close>

definition get_recommendations ::
  "(real list \<Rightarrow> real) \<Rightarrow> (real list \<Rightarrow> nat list) \<Rightarrow> recommender \<Rightarrow> string list \<Rightarrow> int \<Rightarrow>
   error + movie list" where
  "get_recommendations np_mean np_argsort self selected_movie_ids num_recommendations =
     (case similarity_matrix self of
        None \<Rightarrow> Inr []
      | Some M \<Rightarrow>
        (case movies_df self of
           None \<Rightarrow> Inr []
         | Some df \<Rightarrow>
           if df = [] then Inr []
           else if valid_selected_indices df selected_movie_ids = [] then Inr []
           else if \<exists>i \<in> set (valid_selected_indices df selected_movie_ids). length M \<le> i
             then Inl IndexError
           else Inr (map (\<lambda>idx. df ! idx)
                  (recommended_indices np_mean np_argsort M df
                     selected_movie_ids num_recommendations))))"

section \<open>build_similarity_matrix\<close>

text \<open>
  Strings are lists of code points below 256. \<open>isspace\<close> is Python's
  \<^verbatim>\<open>str.isspace\<close> on one such code point: the ASCII white space and separators
  (9 to 13, 28 to 32), NEL (133) and the no-break space (160).
\<close>

definition isspace :: "char \<Rightarrow> bool" where
  "isspace c = (of_char c \<in> set [9, 10, 11, 12, 13, 28, 29, 30, 31, 32, 133, 160 :: nat])"

text \<open>
  \<^verbatim>\<open>s.split()\<close> without a separator: the maximal runs of characters that are not
  white space, in order. \<open>cur\<close> is the run being read.
\<close>

fun split_from :: "string \<Rightarrow> string \<Rightarrow> string list" where
  "split_from cur [] = (if cur = [] then [] else [cur])"
| "split_from cur (c # cs) =
     (if isspace c then (if cur = [] then split_from [] cs else cur # split_from [] cs)
      else split_from (cur @ [c]) cs)"

definition str_split :: "string \<Rightarrow> string list" where
  "str_split s = split_from [] s"

text \<open>\<^verbatim>\<open>sep.join(xs)\<close>.\<close>

fun str_join :: "string \<Rightarrow> string list \<Rightarrow> string" where
  "str_join sep [] = []"
| "str_join sep [s] = s"
| "str_join sep (s # t # ts) = s @ sep @ str_join sep (t # ts)"

text \<open>
  \<^verbatim>\<open>'combined_features' not in self.movies_df.columns\<close>: the data frame made from
  the list of records has the column as soon as one record has the key.
\<close>

definition has_combined_features_column :: "movie list \<Rightarrow> bool" where
  "has_combined_features_column df = list_ex (\<lambda>m. combined_features m \<noteq> None) df"

text \<open>The row-wise lambda of lines 143 to 145.\<close>

definition recreate_combined_features :: "movie \<Rightarrow> movie" where
  "recreate_combined_features x =
     x\<lparr>combined_features := Some (genres x @ '' '' @ cast x @ '' '' @ overview x)\<rparr>"

text \<open>The catalog after lines 141 to 145.\<close>

definition backfilled :: "movie list \<Rightarrow> movie list" where
  "backfilled df =
     (if \<not> has_combined_features_column df then map recreate_combined_features df else df)"

text \<open>\<^verbatim>\<open>self.movies_df['combined_features'].fillna('').astype(str).tolist()\<close>.\<close>

definition corpus_of :: "movie list \<Rightarrow> string list" where
  "corpus_of df = map (\<lambda>m. case combined_features m of None \<Rightarrow> [] | Some s \<Rightarrow> s) df"

text \<open>\<^verbatim>\<open>any(corpus)\<close>: some string of the corpus is not empty.\<close>

definition py_any :: "string list \<Rightarrow> bool" where
  "py_any corpus = list_ex (\<lambda>s. s \<noteq> []) corpus"

text \<open>Lines 154 and 155: the \<^verbatim>\<open>max_features\<close> given to the vectorizer.\<close>

definition max_features_for :: "string list \<Rightarrow> nat" where
  "max_features_for corpus =
     (let max_features = min 5000 (length (remdups (str_split (str_join '' '' corpus))))
      in if max_features = 0 then 1 else max_features)"

text \<open>The shape of a count matrix given by its rows.\<close>

definition shape0 :: "nat list list \<Rightarrow> nat" where
  "shape0 X = length X"

definition shape1 :: "nat list list \<Rightarrow> nat" where
  "shape1 X = (case X of [] \<Rightarrow> 0 | r # _ \<Rightarrow> length r)"

text \<open>
  What the \<^verbatim>\<open>try\<close> block of lines 159 to 169 does with an exception of one of the
  two library calls: a ValueError is caught and leaves no matrix, any other
  exception escapes and leaves the attributes as they are.
\<close>

definition on_exception :: "recommender \<Rightarrow> error \<Rightarrow> recommender \<times> error option" where
  "on_exception self e =
     (if e = ValueError then (self\<lparr>similarity_matrix := None\<rparr>, None) else (self, Some e))"

text \<open>
  \<^verbatim>\<open>build_similarity_matrix\<close>. The two calls into scikit-learn are parameters:
  \<open>fit_transform max_features corpus\<close> stands for
  \<^verbatim>\<open>CountVectorizer(stop_words='english', max_features=max_features).fit_transform(corpus)\<close>
  and gives the count matrix by rows, \<open>cosine_similarity\<close> for the function of
  that name; both may raise. The result is the recommender after the call and
  the exception that escaped, if any.
\<close>

definition build_similarity_matrix ::
  "(nat \<Rightarrow> string list \<Rightarrow> error + nat list list) \<Rightarrow> (nat list list \<Rightarrow> error + real list list) \<Rightarrow>
   recommender \<Rightarrow> recommender \<times> error option" where
  "build_similarity_matrix fit_transform cosine_similarity self =
     (case movies_df self of
        None \<Rightarrow> (self\<lparr>similarity_matrix := None\<rparr>, None)
      | Some df0 \<Rightarrow>
        if df0 = [] then (self\<lparr>similarity_matrix := None\<rparr>, None)
        else
          let df = backfilled df0;
              self1 = self\<lparr>movies_df := Some df\<rparr>;
              corpus = corpus_of df
          in if \<not> py_any corpus then (self1\<lparr>similarity_matrix := None\<rparr>, None)
             else
               let max_features = max_features_for corpus;
                   self2 = self1\<lparr>vectorizer_max_features := Some max_features\<rparr>
               in (case fit_transform max_features corpus of
                     Inl e \<Rightarrow> on_exception self2 e
                   | Inr vectorized_features \<Rightarrow>
                       if shape0 vectorized_features > 0 \<and> shape1 vectorized_features > 0 then
                         (case cosine_similarity vectorized_features of
                            Inl e \<Rightarrow> on_exception self2 e
                          | Inr S \<Rightarrow> (self2\<lparr>similarity_matrix := Some S\<rparr>, None))
                       else (self2\<lparr>similarity_matrix := None\<rparr>, None)))"

section \<open>Auxiliary notions for the statements and proofs\<close>

text \<open>
  What numpy promises of \<^verbatim>\<open>np.argsort(a)\<close>: \<open>p\<close> holds each index of \<open>a\<close> once, and
  the entries of \<open>a\<close> read in the order of \<open>p\<close> are ascending. Nothing is said of
  the order of indices with equal entries.
\<close>

definition is_argsort :: "real list \<Rightarrow> nat list \<Rightarrow> bool" where
  "is_argsort a p \<longleftrightarrow> sort p = [0..<length a] \<and> sorted (map (\<lambda>i. a ! i) p)"

text \<open>
  \<open>accepted df idxs seen\<close> lists the positions that the loop accepts from \<open>idxs\<close>
  when it never breaks: those inside the catalog whose id is neither in \<open>seen\<close>
  nor the id of a position accepted before.
\<close>

fun accepted :: "movie list \<Rightarrow> nat list \<Rightarrow> string set \<Rightarrow> nat list" where
  "accepted df [] seen = []"
| "accepted df (idx # rest) seen =
     (if idx \<ge> length df then accepted df rest seen
      else if movie_id (df ! idx) \<notin> seen
        then idx # accepted df rest (insert (movie_id (df ! idx)) seen)
      else accepted df rest seen)"

text \<open>
  The identifiers a query can return: those of the catalog that are not selected,
  each once (the first row that carries it).
\<close>

definition eligible_ids :: "movie list \<Rightarrow> string list \<Rightarrow> string list" where
  "eligible_ids df sel = remdups (filter (\<lambda>x. x \<notin> set sel) (map movie_id df))"

text \<open>
  Two orders of a list of positions by a score vector \<open>a\<close>: non-increasing in the
  score, and non-increasing in the score with the lower position first among
  equal scores.
\<close>

definition ranked_non_increasing :: "real list \<Rightarrow> nat list \<Rightarrow> bool" where
  "ranked_non_increasing a idxs = sorted_wrt (\<lambda>i j. a ! j \<le> a ! i) idxs"

definition ranked_lower_first :: "real list \<Rightarrow> nat list \<Rightarrow> bool" where
  "ranked_lower_first a idxs =
     sorted_wrt (\<lambda>i j. a ! j \<le> a ! i \<and> (a ! i = a ! j \<longrightarrow> i < j)) idxs"

section \<open>Small catalogs and stand-ins for the library calls\<close>

text \<open>
  The exact mean. On one value, and on values whose sum and quotient are binary64
  numbers, it is what \<^verbatim>\<open>np.mean\<close> returns.
\<close>

definition exact_mean :: "real list \<Rightarrow> real" where
  "exact_mean xs = sum_list xs / real (length xs)"

text \<open>
  One function that satisfies \<open>is_argsort\<close>: an insertion sort of the indices,
  which leaves equal entries in index order.
\<close>

definition insertion_argsort :: "real list \<Rightarrow> nat list" where
  "insertion_argsort a = sort_key (\<lambda>i. a ! i) [0..<length a]"

definition demo_movie :: "string \<Rightarrow> string \<Rightarrow> movie" where
  "demo_movie i f = \<lparr>movie_id = i, title = i, overview = '''', genres = '''', cast = '''',
     poster_path = '''', vote_average = 0, release_date = '''', combined_features = Some f\<rparr>"

definition demo_df :: "movie list" where
  "demo_df = [demo_movie ''m0'' ''heist crew'', demo_movie ''m1'' ''heist crew vault'',
     demo_movie ''m2'' ''garden'', demo_movie ''m3'' ''harbour'']"

text \<open>
  A matrix for the four rows whose entries are binary64 numbers; no two
  unselected rows get the same score in the selections used below.
\<close>

definition demo_matrix :: "real list list" where
  "demo_matrix = [[1, 3 / 4, 1 / 2, 0], [3 / 4, 1, 1 / 4, 1 / 8],
     [1 / 2, 1 / 4, 1, 1 / 2], [0, 1 / 8, 1 / 2, 1]]"

definition demo :: recommender where
  "demo = \<lparr>movies_df = Some demo_df, similarity_matrix = Some demo_matrix,
     vectorizer_max_features = Some 5\<rparr>"

text \<open>
  Eight records without a common term: the similarity matrix is the identity,
  and with \<open>k0\<close> selected the seven others all have the score 0.
\<close>

definition tie_df :: "movie list" where
  "tie_df = map (\<lambda>i. demo_movie i i)
     [''k0'', ''k1'', ''k2'', ''k3'', ''k4'', ''k5'', ''k6'', ''k7'']"

definition tie_matrix :: "real list list" where
  "tie_matrix =
     [[1, 0, 0, 0, 0, 0, 0, 0], [0, 1, 0, 0, 0, 0, 0, 0], [0, 0, 1, 0, 0, 0, 0, 0],
      [0, 0, 0, 1, 0, 0, 0, 0], [0, 0, 0, 0, 1, 0, 0, 0], [0, 0, 0, 0, 0, 1, 0, 0],
      [0, 0, 0, 0, 0, 0, 1, 0], [0, 0, 0, 0, 0, 0, 0, 1]]"

definition tie_state :: recommender where
  "tie_state = \<lparr>movies_df = Some tie_df, similarity_matrix = Some tie_matrix,
     vectorizer_max_features = Some 8\<rparr>"

text \<open>
  An argsort of the scores \<open>[1, 0, 0, 0, 0, 0, 0, 0]\<close> in which the equal entries
  are neither in ascending nor in descending index order, as an unstable sort
  may return them.
\<close>

definition unstable_argsort :: "real list \<Rightarrow> nat list" where
  "unstable_argsort a = [1, 2, 3, 4, 6, 5, 7, 0]"

text \<open>
  A catalog whose composite texts are all empty, in a recommender that still
  holds the matrix of an earlier catalog.
\<close>

definition blank_state :: recommender where
  "blank_state = \<lparr>movies_df = Some [demo_movie ''b0'' '''', demo_movie ''b1'' ''''],
     similarity_matrix = Some demo_matrix, vectorizer_max_features = None\<rparr>"

text \<open>
  A catalog of one record whose three source fields are empty, as line 129 builds
  its composite text: two blanks.
\<close>

definition blanks_state :: recommender where
  "blanks_state = \<lparr>movies_df = Some [demo_movie ''w0'' ''  ''],
     similarity_matrix = None, vectorizer_max_features = None\<rparr>"

text \<open>
  Stand-ins for the two library calls, for evaluating the build on the small
  catalog: one count per record and the matrix of the small catalog.
\<close>

definition demo_fit_transform :: "nat \<Rightarrow> string list \<Rightarrow> error + nat list list" where
  "demo_fit_transform max_features corpus = Inr (map (\<lambda>s. [length s]) corpus)"

definition demo_cosine_similarity :: "nat list list \<Rightarrow> error + real list list" where
  "demo_cosine_similarity X = Inr demo_matrix"

section \<open>Properties of the query\<close>

lemma valid_selected_indices_cong:
  "set s1 = set s2 \<Longrightarrow> valid_selected_indices df s1 = valid_selected_indices df s2"
  by (simp add: valid_selected_indices_def)

lemma valid_selected_indices_empty_iff:
  "valid_selected_indices df sel = [] \<longleftrightarrow> (\<forall>m \<in> set df. movie_id m \<notin> set sel)"
  unfolding valid_selected_indices_def filter_empty_conv
  by (metis atLeastLessThan_iff in_set_conv_nth set_upt zero_le)

lemma valid_selected_indices_less:
  "i \<in> set (valid_selected_indices df sel) \<Longrightarrow> i < length df"
  by (simp add: valid_selected_indices_def)

lemma walk_accepted:
  "walk df n idxs seen recs =
     recs @ take (max 1 (nat (n - int (length recs)))) (accepted df idxs seen)"
proof (induction idxs arbitrary: seen recs)
  case Nil
  show ?case by simp
next
  case (Cons idx rest)
  show ?case
  proof (cases "idx < length df \<and> movie_id (df ! idx) \<notin> seen")
    case False
    then show ?thesis using Cons.IH [of seen recs] by auto
  next
    case True
    show ?thesis
    proof (cases "int (length (recs @ [idx])) \<ge> n")
      case stop: True
      then have "max 1 (nat (n - int (length recs))) = 1" by simp
      with True stop show ?thesis by simp
    next
      case go: False
      then have m: "max 1 (nat (n - int (length recs))) =
          Suc (max 1 (nat (n - int (length (recs @ [idx])))))"
        by simp
      from True go show ?thesis
        using Cons.IH [of "insert (movie_id (df ! idx)) seen" "recs @ [idx]"]
        by (simp only: walk.simps accepted.simps m) simp
    qed
  qed
qed

lemma accepted_subset: "set (accepted df idxs seen) \<subseteq> {i \<in> set idxs. i < length df}"
  by (induction idxs arbitrary: seen) auto

lemma accepted_not_seen:
  "i \<in> set (accepted df idxs seen) \<Longrightarrow> movie_id (df ! i) \<notin> seen"
  by (induction idxs arbitrary: seen) (auto split: if_splits)

lemma accepted_distinct_ids:
  "distinct (map (\<lambda>i. movie_id (df ! i)) (accepted df idxs seen))"
proof (induction idxs arbitrary: seen)
  case Nil
  show ?case by simp
next
  case (Cons idx rest)
  have "movie_id (df ! i) \<noteq> movie_id (df ! idx)"
    if "i \<in> set (accepted df rest (insert (movie_id (df ! idx)) seen))" for i
    using accepted_not_seen [OF that] by simp
  then have "movie_id (df ! idx) \<notin>
      (\<lambda>i. movie_id (df ! i)) ` set (accepted df rest (insert (movie_id (df ! idx)) seen))"
    by force
  with Cons.IH show ?case by simp
qed

lemma accepted_ids:
  "(\<lambda>i. movie_id (df ! i)) ` set (accepted df idxs seen) =
     (\<lambda>i. movie_id (df ! i)) ` {i \<in> set idxs. i < length df} - seen"
proof (induction idxs arbitrary: seen)
  case Nil
  show ?case by simp
next
  case (Cons idx rest)
  show ?case
    using Cons.IH [of seen] Cons.IH [of "insert (movie_id (df ! idx)) seen"]
    by (simp only: accepted.simps) (auto split: if_splits)
qed

lemma accepted_sorted_wrt:
  "sorted_wrt P idxs \<Longrightarrow> sorted_wrt P (accepted df idxs seen)"
proof (induction idxs arbitrary: seen)
  case Nil
  show ?case by simp
next
  case (Cons idx rest)
  from Cons.prems have r: "sorted_wrt P rest" and h: "\<forall>j \<in> set rest. P idx j" by simp_all
  have "\<forall>j \<in> set (accepted df rest s). P idx j" for s
    using h accepted_subset [of df rest s] by auto
  with Cons.IH [OF r] show ?case by simp
qed

lemma accepted_subseq: "subseq (accepted df idxs seen) idxs"
  by (induction idxs arbitrary: seen) auto

lemma subseq_take_self: "subseq (take k xs) xs"
  using subseq_rev_drop_many [of "take k xs" "take k xs" "drop k xs"] by simp

subsection \<open>The ranking\<close>

lemma is_argsort_set: "is_argsort a p \<Longrightarrow> set p = {0..<length a}"
  by (metis is_argsort_def set_sort set_upt)

lemma is_argsort_order:
  "is_argsort a p \<Longrightarrow> sorted_wrt (\<lambda>i j. a ! j \<le> a ! i) (rev p)"
  by (simp add: is_argsort_def sorted_map sorted_wrt_rev)

lemma length_avg_similarity_scores: "length (avg_similarity_scores np_mean M valid) = ncols M"
  by (simp add: avg_similarity_scores_def)

lemma set_sorted_movie_indices:
  assumes "is_argsort (avg_similarity_scores np_mean M valid)
    (np_argsort (avg_similarity_scores np_mean M valid))"
  shows "set (sorted_movie_indices np_mean np_argsort M valid) = {0..<ncols M}"
  using assms
  by (simp add: is_argsort_set sorted_movie_indices_def length_avg_similarity_scores)

lemma sorted_movie_indices_order:
  assumes "is_argsort (avg_similarity_scores np_mean M valid)
    (np_argsort (avg_similarity_scores np_mean M valid))"
  shows "sorted_wrt (\<lambda>i j. avg_similarity_scores np_mean M valid ! j \<le>
      avg_similarity_scores np_mean M valid ! i)
    (sorted_movie_indices np_mean np_argsort M valid)"
  unfolding sorted_movie_indices_def using assms by (rule is_argsort_order)

lemma recommended_indices_accepted:
  "recommended_indices np_mean np_argsort M df sel n =
     take (max 1 (nat n))
       (accepted df (sorted_movie_indices np_mean np_argsort M (valid_selected_indices df sel))
          (set sel))"
  by (simp add: recommended_indices_def walk_accepted)

lemma recommended_indices_subseq:
  "subseq (recommended_indices np_mean np_argsort M df sel n)
     (sorted_movie_indices np_mean np_argsort M (valid_selected_indices df sel))"
  unfolding recommended_indices_accepted
  by (rule subseq_order.trans [OF subseq_take_self accepted_subseq])

lemma recommended_indices_order:
  assumes "is_argsort (avg_similarity_scores np_mean M (valid_selected_indices df sel))
    (np_argsort (avg_similarity_scores np_mean M (valid_selected_indices df sel)))"
  shows "sorted_wrt (\<lambda>i j. avg_similarity_scores np_mean M (valid_selected_indices df sel) ! j \<le>
      avg_similarity_scores np_mean M (valid_selected_indices df sel) ! i)
    (recommended_indices np_mean np_argsort M df sel n)"
  unfolding recommended_indices_accepted
  by (intro sorted_wrt_take accepted_sorted_wrt sorted_movie_indices_order assms)

lemma recommended_indices_subset:
  "set (recommended_indices np_mean np_argsort M df sel n) \<subseteq>
     {i \<in> set (sorted_movie_indices np_mean np_argsort M (valid_selected_indices df sel)).
        i < length df}"
  unfolding recommended_indices_accepted
  by (rule order_trans [OF set_take_subset accepted_subset])

lemma recommended_indices_less:
  "i \<in> set (recommended_indices np_mean np_argsort M df sel n) \<Longrightarrow> i < length df"
  using recommended_indices_subset [of np_mean np_argsort M df sel n] by auto

lemma recommended_indices_not_selected:
  "i \<in> set (recommended_indices np_mean np_argsort M df sel n) \<Longrightarrow> movie_id (df ! i) \<notin> set sel"
  unfolding recommended_indices_accepted
  by (rule accepted_not_seen) (erule in_set_takeD)

lemma recommended_indices_distinct_ids:
  "distinct (map (\<lambda>i. movie_id (df ! i)) (recommended_indices np_mean np_argsort M df sel n))"
  unfolding recommended_indices_accepted take_map [symmetric]
  by (rule distinct_take) (rule accepted_distinct_ids)

lemma length_accepted_all:
  assumes "{0..<length df} \<subseteq> set idxs"
  shows "length (accepted df idxs (set sel)) = length (eligible_ids df sel)"
proof -
  let ?f = "\<lambda>i. movie_id (df ! i)"
  have "{i \<in> set idxs. i < length df} = {0..<length df}"
    using assms by auto
  then have "?f ` set (accepted df idxs (set sel)) = ?f ` {0..<length df} - set sel"
    by (simp add: accepted_ids)
  also have "?f ` {0..<length df} = movie_id ` ((!) df ` {0..<length df})"
    by (simp add: image_image)
  also have "(!) df ` {0..<length df} = set df"
    by (simp add: nth_image)
  finally have s: "set (map ?f (accepted df idxs (set sel))) = set (eligible_ids df sel)"
    by (auto simp: eligible_ids_def)
  have "length (map ?f (accepted df idxs (set sel))) = card (set (map ?f (accepted df idxs (set sel))))"
    by (rule distinct_card [symmetric]) (rule accepted_distinct_ids)
  also have "\<dots> = card (set (eligible_ids df sel))"
    by (simp only: s)
  also have "\<dots> = length (eligible_ids df sel)"
    by (rule distinct_card) (simp add: eligible_ids_def)
  finally show ?thesis by simp
qed

lemma length_recommended_indices:
  assumes "length df \<le> ncols M"
    and "is_argsort (avg_similarity_scores np_mean M (valid_selected_indices df sel))
      (np_argsort (avg_similarity_scores np_mean M (valid_selected_indices df sel)))"
  shows "length (recommended_indices np_mean np_argsort M df sel n) =
     min (max 1 (nat n)) (length (eligible_ids df sel))"
proof -
  have "{0..<length df} \<subseteq>
      set (sorted_movie_indices np_mean np_argsort M (valid_selected_indices df sel))"
    using assms by (simp add: set_sorted_movie_indices)
  then show ?thesis
    by (simp add: recommended_indices_accepted length_accepted_all)
qed

lemma length_recommended_indices_le:
  "length (recommended_indices np_mean np_argsort M df sel n) \<le> max 1 (nat n)"
  by (simp add: recommended_indices_accepted)

lemma get_recommendations_built:
  assumes "similarity_matrix self = Some M" "movies_df self = Some df"
    and "valid_selected_indices df sel \<noteq> []" "length df \<le> length M"
  shows "get_recommendations np_mean np_argsort self sel n =
     Inr (map (\<lambda>idx. df ! idx) (recommended_indices np_mean np_argsort M df sel n))"
proof -
  have "df \<noteq> []" using assms(3) by (auto simp: valid_selected_indices_def)
  moreover have "\<not> (\<exists>i \<in> set (valid_selected_indices df sel). length M \<le> i)"
    using assms(4) valid_selected_indices_less [of _ df sel] by fastforce
  ultimately show ?thesis using assms(1-3) by (simp add: get_recommendations_def)
qed

lemma get_recommendations_cases:
  assumes "get_recommendations np_mean np_argsort self sel n = Inr R"
  shows "R = [] \<or> (\<exists>M df. similarity_matrix self = Some M \<and> movies_df self = Some df \<and>
           valid_selected_indices df sel \<noteq> [] \<and>
           R = map (\<lambda>idx. df ! idx) (recommended_indices np_mean np_argsort M df sel n))"
  using assms by (auto simp: get_recommendations_def split: option.splits if_splits)

lemma get_recommendations_guarded:
  assumes "similarity_matrix self = None \<or> movies_df self = None \<or> movies_df self = Some [] \<or>
    (\<exists>df. movies_df self = Some df \<and> (\<forall>m \<in> set df. movie_id m \<notin> set sel))"
  shows "get_recommendations np_mean np_argsort self sel n = Inr []"
  using assms
  by (auto simp: get_recommendations_def valid_selected_indices_empty_iff [symmetric]
      split: option.splits)

lemma get_recommendations_state:
  assumes "similarity_matrix s1 = similarity_matrix s2" and "movies_df s1 = movies_df s2"
  shows "get_recommendations np_mean np_argsort s1 sel n =
    get_recommendations np_mean np_argsort s2 sel n"
  unfolding get_recommendations_def assms ..

text \<open>The insertion sort of the indices is an argsort.\<close>

lemma insertion_argsort_is_argsort: "is_argsort a (insertion_argsort a)"
proof -
  have "sort (sort_key (\<lambda>i. a ! i) [0..<length a]) = [0..<length a]"
    by (rule sorted_distinct_set_unique) simp_all
  then show ?thesis
    by (simp add: is_argsort_def insertion_argsort_def)
qed

section \<open>Properties of the build\<close>

lemma py_any_iff: "py_any corpus \<longleftrightarrow> (\<exists>s \<in> set corpus. s \<noteq> [])"
  by (simp add: py_any_def list_ex_iff)

lemma on_exception_cases:
  "on_exception self e = (self\<lparr>similarity_matrix := None\<rparr>, None) \<or> on_exception self e = (self, Some e)"
  by (simp add: on_exception_def)

lemma max_features_for_eq:
  "max_features_for corpus =
     (if card (set (str_split (str_join '' '' corpus))) = 0 then 1
      else min 5000 (card (set (str_split (str_join '' '' corpus)))))"
  by (auto simp: max_features_for_def Let_def length_remdups_card_conv min_def)

lemma build_similarity_matrix_vectorized:
  assumes "movies_df self = Some df" and "py_any (corpus_of (backfilled df))"
  shows "build_similarity_matrix fit_transform cosine_similarity self =
     (let corpus = corpus_of (backfilled df);
          self2 = self\<lparr>movies_df := Some (backfilled df),
                    vectorizer_max_features := Some (max_features_for corpus)\<rparr>
      in case fit_transform (max_features_for corpus) corpus of
           Inl e \<Rightarrow> on_exception self2 e
         | Inr vectorized_features \<Rightarrow>
             if shape0 vectorized_features > 0 \<and> shape1 vectorized_features > 0 then
               (case cosine_similarity vectorized_features of
                  Inl e \<Rightarrow> on_exception self2 e
                | Inr S \<Rightarrow> (self2\<lparr>similarity_matrix := Some S\<rparr>, None))
             else (self2\<lparr>similarity_matrix := None\<rparr>, None))"
proof -
  have "df \<noteq> []"
    using assms(2) by (auto simp: py_any_iff corpus_of_def backfilled_def)
  then show ?thesis
    using assms by (simp add: build_similarity_matrix_def Let_def)
qed

lemma build_similarity_matrix_max_features:
  assumes "movies_df self = Some df" and "py_any (corpus_of (backfilled df))"
  shows "vectorizer_max_features (fst (build_similarity_matrix fit_transform cosine_similarity self)) =
     Some (max_features_for (corpus_of (backfilled df)))"
  unfolding build_similarity_matrix_vectorized [OF assms] Let_def
  by (simp add: on_exception_def split: sum.splits)

lemma build_similarity_matrix_catalog_only:
  assumes "movies_df s1 = movies_df s2"
  shows "snd (build_similarity_matrix fit_transform cosine_similarity s1) =
         snd (build_similarity_matrix fit_transform cosine_similarity s2)"
    and "snd (build_similarity_matrix fit_transform cosine_similarity s1) = None \<Longrightarrow>
         similarity_matrix (fst (build_similarity_matrix fit_transform cosine_similarity s1)) =
         similarity_matrix (fst (build_similarity_matrix fit_transform cosine_similarity s2))"
    and "movies_df (fst (build_similarity_matrix fit_transform cosine_similarity s1)) =
         movies_df (fst (build_similarity_matrix fit_transform cosine_similarity s2))"
  using assms
  by (auto simp: build_similarity_matrix_def Let_def on_exception_def
      split: option.splits sum.splits if_splits)

section \<open>Claims about the query\<close>

lemmas demo_eval = get_recommendations_def valid_selected_indices_def recommended_indices_def
  sorted_movie_indices_def avg_similarity_scores_def ncols_def eligible_ids_def
  exact_mean_def insertion_argsort_def unstable_argsort_def is_argsort_def
  demo_def demo_df_def demo_matrix_def demo_movie_def

lemmas tie_eval = tie_state_def tie_df_def tie_matrix_def

text \<open>
  C1 (as the code has it). When the matrix is built, the selection resolves to at
  least one catalog row, and \<^verbatim>\<open>np.argsort\<close> returns an argsort of the scores, the
  returned records are the catalog rows at the recommended positions, every such
  position is a row of the catalog and a column of the matrix, and the positions
  are ordered by non-increasing aggregate score, the score being the mean over
  the selected rows as \<^verbatim>\<open>np.mean\<close> computes it. The positions come in the order
  of the reversed argsort; the code adds no rule for equal scores.
\<close>

theorem ranking_non_increasing:
  assumes "similarity_matrix self = Some M" and "movies_df self = Some df"
    and "valid_selected_indices df sel \<noteq> []"
    and "is_argsort (avg_similarity_scores np_mean M (valid_selected_indices df sel))
      (np_argsort (avg_similarity_scores np_mean M (valid_selected_indices df sel)))"
    and "get_recommendations np_mean np_argsort self sel n = Inr R"
  shows "R = map (\<lambda>idx. df ! idx) (recommended_indices np_mean np_argsort M df sel n) \<and>
    (\<forall>i \<in> set (recommended_indices np_mean np_argsort M df sel n). i < length df \<and> i < ncols M) \<and>
    ranked_non_increasing (avg_similarity_scores np_mean M (valid_selected_indices df sel))
      (recommended_indices np_mean np_argsort M df sel n) \<and>
    subseq (recommended_indices np_mean np_argsort M df sel n)
      (rev (np_argsort (avg_similarity_scores np_mean M (valid_selected_indices df sel))))"
proof -
  let ?a = "avg_similarity_scores np_mean M (valid_selected_indices df sel)"
  let ?r = "recommended_indices np_mean np_argsort M df sel n"
  have "df \<noteq> []"
    using assms(3) by (auto simp: valid_selected_indices_def)
  then have 1: "R = map (\<lambda>idx. df ! idx) ?r"
    using assms by (auto simp: get_recommendations_def split: if_splits)
  have s: "subseq ?r (rev (np_argsort ?a))"
    using recommended_indices_subseq [of np_mean np_argsort M df sel n]
    by (simp add: sorted_movie_indices_def)
  have "set ?r \<subseteq> {i \<in> {0..<ncols M}. i < length df}"
    using recommended_indices_subset [of np_mean np_argsort M df sel n] assms(4)
    by (simp add: set_sorted_movie_indices)
  then have 2: "\<forall>i \<in> set ?r. i < length df \<and> i < ncols M"
    by auto
  have 3: "ranked_non_increasing ?a ?r"
    unfolding ranked_non_increasing_def using assms(4) by (rule recommended_indices_order)
  from 1 2 3 s show ?thesis by blast
qed

theorem ranking_non_increasing_witness:
  "similarity_matrix demo = Some demo_matrix \<and> movies_df demo = Some demo_df \<and>
   valid_selected_indices demo_df [''m0''] \<noteq> [] \<and>
   avg_similarity_scores exact_mean demo_matrix (valid_selected_indices demo_df [''m0'']) =
     [1, 3 / 4, 1 / 2, 0] \<and>
   is_argsort [1, 3 / 4, 1 / 2, 0] (insertion_argsort [1, 3 / 4, 1 / 2, 0]) \<and>
   get_recommendations exact_mean insertion_argsort demo [''m0''] 5 =
     Inr [demo_df ! 1, demo_df ! 2, demo_df ! 3] \<and>
   ranked_non_increasing [1, 3 / 4, 1 / 2, 0] [1, 2, 3]"
proof -
  have 1: "similarity_matrix demo = Some demo_matrix" by (simp add: demo_def)
  have 2: "movies_df demo = Some demo_df" by (simp add: demo_def)
  have 3: "valid_selected_indices demo_df [''m0''] \<noteq> []" by (simp add: demo_eval)
  have 4: "avg_similarity_scores exact_mean demo_matrix (valid_selected_indices demo_df [''m0'']) =
      [1, 3 / 4, 1 / 2, 0]"
    by (simp add: demo_eval)
  have 5: "is_argsort [1, 3 / 4, 1 / 2, 0] (insertion_argsort [1, 3 / 4, 1 / 2, 0])"
    by (simp add: demo_eval)
  have 6: "get_recommendations exact_mean insertion_argsort demo [''m0''] 5 =
      Inr [demo_df ! 1, demo_df ! 2, demo_df ! 3]"
    by (simp add: demo_eval)
  have 7: "recommended_indices exact_mean insertion_argsort demo_matrix demo_df [''m0''] 5 = [1, 2, 3]"
    by (simp add: demo_eval)
  have 8: "is_argsort (avg_similarity_scores exact_mean demo_matrix (valid_selected_indices demo_df [''m0'']))
      (insertion_argsort
        (avg_similarity_scores exact_mean demo_matrix (valid_selected_indices demo_df [''m0''])))"
    by (simp only: 4 5)
  from ranking_non_increasing
    [where np_mean = exact_mean and np_argsort = insertion_argsort, OF 1 2 3 8 6]
  have "ranked_non_increasing [1, 3 / 4, 1 / 2, 0] [1, 2, 3]"
    by (simp only: 4 7)
  with 1 2 3 4 5 6 show ?thesis by blast
qed

text \<open>
  C1 as stated fails. In the catalog of eight records with \<open>k0\<close> selected, the
  seven others all have the aggregate score 0. With the argsort
  \<open>[1, 2, 3, 4, 6, 5, 7, 0]\<close> of these scores the query returns the rows
  7, 5, 6, 4, 3, 2, 1, and with the insertion sort the rows 7, 6, 5, 4, 3, 2, 1:
  either way row 7 comes before the rows of lower position with the same score.
\<close>

theorem ranking_tie_break_counterexample:
  "avg_similarity_scores exact_mean tie_matrix (valid_selected_indices tie_df [''k0'']) =
     [1, 0, 0, 0, 0, 0, 0, 0] \<and>
   is_argsort [1, 0, 0, 0, 0, 0, 0, 0] (unstable_argsort [1, 0, 0, 0, 0, 0, 0, 0]) \<and>
   get_recommendations exact_mean unstable_argsort tie_state [''k0''] 10 =
     Inr [tie_df ! 7, tie_df ! 5, tie_df ! 6, tie_df ! 4, tie_df ! 3, tie_df ! 2, tie_df ! 1] \<and>
   \<not> ranked_lower_first [1, 0, 0, 0, 0, 0, 0, 0] [7, 5, 6, 4, 3, 2, 1] \<and>
   is_argsort [1, 0, 0, 0, 0, 0, 0, 0] (insertion_argsort [1, 0, 0, 0, 0, 0, 0, 0]) \<and>
   get_recommendations exact_mean insertion_argsort tie_state [''k0''] 10 =
     Inr [tie_df ! 7, tie_df ! 6, tie_df ! 5, tie_df ! 4, tie_df ! 3, tie_df ! 2, tie_df ! 1] \<and>
   \<not> ranked_lower_first [1, 0, 0, 0, 0, 0, 0, 0] [7, 6, 5, 4, 3, 2, 1]"
proof -
  have 1: "avg_similarity_scores exact_mean tie_matrix (valid_selected_indices tie_df [''k0'']) =
      [1, 0, 0, 0, 0, 0, 0, 0]"
    by (simp add: demo_eval tie_eval)
  have 2: "is_argsort [1, 0, 0, 0, 0, 0, 0, 0] (unstable_argsort [1, 0, 0, 0, 0, 0, 0, 0])"
    by (simp add: demo_eval)
  have 3: "get_recommendations exact_mean unstable_argsort tie_state [''k0''] 10 =
      Inr [tie_df ! 7, tie_df ! 5, tie_df ! 6, tie_df ! 4, tie_df ! 3, tie_df ! 2, tie_df ! 1]"
    by (simp add: demo_eval tie_eval)
  have 4: "\<not> ranked_lower_first [1, 0, 0, 0, 0, 0, 0, 0] [7, 5, 6, 4, 3, 2, 1]"
    by (simp add: ranked_lower_first_def)
  have 5: "is_argsort [1, 0, 0, 0, 0, 0, 0, 0] (insertion_argsort [1, 0, 0, 0, 0, 0, 0, 0])"
    by (simp add: demo_eval)
  have 6: "get_recommendations exact_mean insertion_argsort tie_state [''k0''] 10 =
      Inr [tie_df ! 7, tie_df ! 6, tie_df ! 5, tie_df ! 4, tie_df ! 3, tie_df ! 2, tie_df ! 1]"
    by (simp add: demo_eval tie_eval)
  have 7: "\<not> ranked_lower_first [1, 0, 0, 0, 0, 0, 0, 0] [7, 6, 5, 4, 3, 2, 1]"
    by (simp add: ranked_lower_first_def)
  from 1 2 3 4 5 6 7 show ?thesis by blast
qed

text \<open>
  C3. No record returned by \<open>get_recommendations\<close> carries a selected identifier,
  and no two returned records carry the same identifier.
\<close>

theorem self_exclusion_no_duplicates:
  assumes "get_recommendations np_mean np_argsort self sel n = Inr R"
  shows "(\<forall>m \<in> set R. movie_id m \<notin> set sel) \<and> distinct (map movie_id R)"
proof -
  from get_recommendations_cases [OF assms] show ?thesis
  proof
    assume "R = []"
    then show ?thesis by simp
  next
    assume "\<exists>M df. similarity_matrix self = Some M \<and> movies_df self = Some df \<and>
      valid_selected_indices df sel \<noteq> [] \<and>
      R = map (\<lambda>idx. df ! idx) (recommended_indices np_mean np_argsort M df sel n)"
    then obtain M df
      where R: "R = map (\<lambda>idx. df ! idx) (recommended_indices np_mean np_argsort M df sel n)"
      by blast
    have "movie_id m \<notin> set sel" if "m \<in> set R" for m
      using that recommended_indices_not_selected [of _ np_mean np_argsort M df sel n]
      by (auto simp: R)
    moreover have "distinct (map movie_id R)"
      using recommended_indices_distinct_ids [of df np_mean np_argsort M sel n]
      by (simp add: R o_def)
    ultimately show ?thesis by blast
  qed
qed

theorem self_exclusion_no_duplicates_witness:
  "get_recommendations exact_mean insertion_argsort demo [''m0'', ''m1''] 5 =
     Inr [demo_df ! 2, demo_df ! 3] \<and>
   list_all (\<lambda>m. movie_id m \<notin> set [''m0'', ''m1'']) [demo_df ! 2, demo_df ! 3] \<and>
   distinct (map movie_id [demo_df ! 2, demo_df ! 3])"
proof -
  have 1: "get_recommendations exact_mean insertion_argsort demo [''m0'', ''m1''] 5 =
      Inr [demo_df ! 2, demo_df ! 3]"
    by (simp add: demo_eval)
  from self_exclusion_no_duplicates [OF 1] show ?thesis using 1 by (simp add: list_all_iff)
qed

text \<open>
  C4 (as the code has it). For a positive \<open>n\<close> the result never has more than \<open>n\<close>
  records. When the matrix is built, at least one selected identifier is in the
  catalog, the matrix has a row and a column for every catalog row, and
  \<^verbatim>\<open>np.argsort\<close> returns an argsort of the scores, the query returns without error
  and the length of the result is the minimum of \<open>n\<close> and the number of eligible
  identifiers (those of the catalog that are not selected, counted once). In the
  guarded cases (no matrix, no catalog, an empty catalog, no selected identifier
  in the catalog) the result is empty, whatever the number of eligible
  identifiers.
\<close>

theorem size_bound:
  assumes "0 < n"
  shows "(\<forall>R. get_recommendations np_mean np_argsort self sel n = Inr R \<longrightarrow> int (length R) \<le> n) \<and>
    (\<forall>M df. similarity_matrix self = Some M \<and> movies_df self = Some df \<and>
       valid_selected_indices df sel \<noteq> [] \<and> length df \<le> length M \<and> length df \<le> ncols M \<and>
       is_argsort (avg_similarity_scores np_mean M (valid_selected_indices df sel))
         (np_argsort (avg_similarity_scores np_mean M (valid_selected_indices df sel))) \<longrightarrow>
       (\<exists>R. get_recommendations np_mean np_argsort self sel n = Inr R \<and>
          length R = min (nat n) (length (eligible_ids df sel)))) \<and>
    (similarity_matrix self = None \<or> movies_df self = None \<or> movies_df self = Some [] \<or>
       (\<exists>df. movies_df self = Some df \<and> valid_selected_indices df sel = []) \<longrightarrow>
       get_recommendations np_mean np_argsort self sel n = Inr [])"
proof (intro conjI allI impI)
  fix R
  assume "get_recommendations np_mean np_argsort self sel n = Inr R"
  from get_recommendations_cases [OF this] show "int (length R) \<le> n"
  proof
    assume "R = []"
    then show ?thesis using assms by simp
  next
    assume "\<exists>M df. similarity_matrix self = Some M \<and> movies_df self = Some df \<and>
      valid_selected_indices df sel \<noteq> [] \<and>
      R = map (\<lambda>idx. df ! idx) (recommended_indices np_mean np_argsort M df sel n)"
    then obtain M df
      where "R = map (\<lambda>idx. df ! idx) (recommended_indices np_mean np_argsort M df sel n)"
      by blast
    then have "length R \<le> max 1 (nat n)"
      using length_recommended_indices_le [of np_mean np_argsort M df sel n] by simp
    then show ?thesis using assms by simp
  qed
next
  fix M df
  assume a: "similarity_matrix self = Some M \<and> movies_df self = Some df \<and>
    valid_selected_indices df sel \<noteq> [] \<and> length df \<le> length M \<and> length df \<le> ncols M \<and>
    is_argsort (avg_similarity_scores np_mean M (valid_selected_indices df sel))
      (np_argsort (avg_similarity_scores np_mean M (valid_selected_indices df sel)))"
  then have "get_recommendations np_mean np_argsort self sel n =
      Inr (map (\<lambda>idx. df ! idx) (recommended_indices np_mean np_argsort M df sel n))"
    by (intro get_recommendations_built) simp_all
  moreover have "length (recommended_indices np_mean np_argsort M df sel n) =
      min (nat n) (length (eligible_ids df sel))"
    using a assms by (simp add: length_recommended_indices max_def)
  ultimately show "\<exists>R. get_recommendations np_mean np_argsort self sel n = Inr R \<and>
      length R = min (nat n) (length (eligible_ids df sel))"
    by simp
next
  assume "similarity_matrix self = None \<or> movies_df self = None \<or> movies_df self = Some [] \<or>
    (\<exists>df. movies_df self = Some df \<and> valid_selected_indices df sel = [])"
  then show "get_recommendations np_mean np_argsort self sel n = Inr []"
    by (intro get_recommendations_guarded) (simp add: valid_selected_indices_empty_iff)
qed

theorem size_bound_witness:
  "(0::int) < 1 \<and> (0::int) < 5 \<and>
   length (eligible_ids demo_df [''m0'', ''m1'']) = 2 \<and>
   get_recommendations exact_mean insertion_argsort demo [''m0'', ''m1''] 1 = Inr [demo_df ! 2] \<and>
   (\<exists>R. get_recommendations exact_mean insertion_argsort demo [''m0'', ''m1''] 1 = Inr R \<and>
      length R = min (nat 1) 2) \<and>
   get_recommendations exact_mean insertion_argsort demo [''m0'', ''m1''] 5 =
     Inr [demo_df ! 2, demo_df ! 3] \<and>
   (\<exists>R. get_recommendations exact_mean insertion_argsort demo [''m0'', ''m1''] 5 = Inr R \<and>
      length R = min (nat 5) 2) \<and>
   valid_selected_indices demo_df [''does-not-exist''] = [] \<and>
   get_recommendations exact_mean insertion_argsort demo [''does-not-exist''] 5 = Inr []"
proof -
  let ?sel = "[''m0'', ''m1'']"
  have p1: "(0::int) < 1" and p5: "(0::int) < 5" by simp_all
  have 1: "similarity_matrix demo = Some demo_matrix \<and> movies_df demo = Some demo_df \<and>
      valid_selected_indices demo_df ?sel \<noteq> [] \<and> length demo_df \<le> length demo_matrix \<and>
      length demo_df \<le> ncols demo_matrix \<and>
      is_argsort (avg_similarity_scores exact_mean demo_matrix (valid_selected_indices demo_df ?sel))
        (insertion_argsort
          (avg_similarity_scores exact_mean demo_matrix (valid_selected_indices demo_df ?sel)))"
    by (simp add: demo_eval)
  have 2: "length (eligible_ids demo_df ?sel) = 2"
    by (simp add: demo_eval)
  have 3: "get_recommendations exact_mean insertion_argsort demo ?sel 1 = Inr [demo_df ! 2]"
    by (simp add: demo_eval)
  have 4: "get_recommendations exact_mean insertion_argsort demo ?sel 5 =
      Inr [demo_df ! 2, demo_df ! 3]"
    by (simp add: demo_eval)
  have 5: "valid_selected_indices demo_df [''does-not-exist''] = []"
    by (simp add: demo_eval)
  have 6: "movies_df demo = Some demo_df" by (simp add: demo_def)
  from size_bound [OF p1, of exact_mean insertion_argsort demo ?sel] 1
  have a: "\<exists>R. get_recommendations exact_mean insertion_argsort demo ?sel 1 = Inr R \<and>
      length R = min (nat 1) (length (eligible_ids demo_df ?sel))"
    by blast
  from size_bound [OF p5, of exact_mean insertion_argsort demo ?sel] 1
  have b: "\<exists>R. get_recommendations exact_mean insertion_argsort demo ?sel 5 = Inr R \<and>
      length R = min (nat 5) (length (eligible_ids demo_df ?sel))"
    by blast
  from size_bound [OF p5, of exact_mean insertion_argsort demo "[''does-not-exist'']"] 5 6
  have c: "get_recommendations exact_mean insertion_argsort demo [''does-not-exist''] 5 = Inr []"
    by blast
  from a b c show ?thesis using p1 p5 2 3 4 5 by simp
qed

text \<open>
  C4 as stated fails: no selected identifier is in the small catalog, all four rows
  are eligible, and the result for \<open>n = 1\<close> is empty, not of length
  \<open>min 1 4\<close>. The ranking is not reached.
\<close>

theorem size_bound_counterexample:
  "get_recommendations exact_mean insertion_argsort demo [''does-not-exist''] 1 = Inr [] \<and>
   length (eligible_ids demo_df [''does-not-exist'']) = 4 \<and>
   length ([] :: movie list) \<noteq> min (nat 1) (length (eligible_ids demo_df [''does-not-exist'']))"
  by (simp add: demo_eval)

text \<open>
  C5. Without a similarity matrix, without a catalog, with an empty catalog, and
  when no selected identifier is the identifier of a catalog row,
  \<open>get_recommendations\<close> returns the empty list and raises nothing.
\<close>

theorem no_index_or_no_valid_selection_returns_empty:
  assumes "similarity_matrix self = None \<or> movies_df self = None \<or> movies_df self = Some [] \<or>
    (\<exists>df. movies_df self = Some df \<and> (\<forall>m \<in> set df. movie_id m \<notin> set sel))"
  shows "get_recommendations np_mean np_argsort self sel n = Inr []"
  using assms
  by (auto simp: get_recommendations_def valid_selected_indices_empty_iff [symmetric]
      split: option.splits)

theorem no_index_or_no_valid_selection_returns_empty_witness:
  "(\<exists>df. movies_df demo = Some df \<and> (\<forall>m \<in> set df. movie_id m \<notin> set [''tt0000000''])) \<and>
   get_recommendations exact_mean insertion_argsort demo [''tt0000000''] 10 = Inr [] \<and>
   similarity_matrix (demo\<lparr>similarity_matrix := None\<rparr>) = None \<and>
   get_recommendations exact_mean insertion_argsort (demo\<lparr>similarity_matrix := None\<rparr>)
     [''m0''] 10 = Inr [] \<and>
   movies_df (demo\<lparr>movies_df := Some []\<rparr>) = Some [] \<and>
   get_recommendations exact_mean insertion_argsort (demo\<lparr>movies_df := Some []\<rparr>)
     [''m0''] 10 = Inr []"
proof -
  have 1: "\<exists>df. movies_df demo = Some df \<and> (\<forall>m \<in> set df. movie_id m \<notin> set [''tt0000000''])"
    by (simp add: demo_def demo_df_def demo_movie_def)
  have 2: "similarity_matrix (demo\<lparr>similarity_matrix := None\<rparr>) = None" by simp
  have 3: "movies_df (demo\<lparr>movies_df := Some []\<rparr>) = Some []" by simp
  show ?thesis
    using 1 2 3
      no_index_or_no_valid_selection_returns_empty
        [of demo "[''tt0000000'']" exact_mean insertion_argsort 10]
      no_index_or_no_valid_selection_returns_empty
        [of "demo\<lparr>similarity_matrix := None\<rparr>" "[''m0'']" exact_mean insertion_argsort 10]
      no_index_or_no_valid_selection_returns_empty
        [of "demo\<lparr>movies_df := Some []\<rparr>" "[''m0'']" exact_mean insertion_argsort 10]
    by blast
qed

text \<open>
  C9. Two selection lists with the same set of identifiers (one a permutation of
  the other, with or without repetitions) give the same result, for every state
  and every bound.
\<close>

theorem selection_order_and_duplicates_irrelevant:
  assumes "set sel1 = set sel2"
  shows "get_recommendations np_mean np_argsort self sel1 n =
    get_recommendations np_mean np_argsort self sel2 n"
proof -
  have v: "valid_selected_indices df sel1 = valid_selected_indices df sel2" for df
    using assms by (rule valid_selected_indices_cong)
  have r: "recommended_indices np_mean np_argsort M df sel1 n =
      recommended_indices np_mean np_argsort M df sel2 n" for M df
    by (simp add: recommended_indices_def v assms)
  show ?thesis
    by (simp add: get_recommendations_def v r split: option.splits)
qed

theorem selection_order_and_duplicates_irrelevant_witness:
  "set [''m0'', ''m1''] = set [''m1'', ''m0'', ''m1''] \<and>
   get_recommendations exact_mean insertion_argsort demo [''m0'', ''m1''] 5 =
   get_recommendations exact_mean insertion_argsort demo [''m1'', ''m0'', ''m1''] 5 \<and>
   get_recommendations exact_mean insertion_argsort demo [''m1'', ''m0'', ''m1''] 5 =
     Inr [demo_df ! 2, demo_df ! 3]"
proof -
  have 1: "set [''m0'', ''m1''] = set [''m1'', ''m0'', ''m1'']" by auto
  have 2: "get_recommendations exact_mean insertion_argsort demo [''m1'', ''m0'', ''m1''] 5 =
      Inr [demo_df ! 2, demo_df ! 3]"
    by (simp add: demo_eval)
  from selection_order_and_duplicates_irrelevant [OF 1, of exact_mean insertion_argsort demo 5]
  show ?thesis using 1 2 by simp
qed

text \<open>
  C10. With a built matrix that has a row and a column for every catalog row, a
  selection that resolves to at least one catalog row, an argsort of the scores,
  and at least one catalog identifier that is not selected, a bound \<open>n \<le> 0\<close>
  gives exactly one record: the limit is only tested after a record has been
  appended.
\<close>

theorem non_positive_bound_returns_one:
  assumes "n \<le> 0"
    and "similarity_matrix self = Some M" and "movies_df self = Some df"
    and "valid_selected_indices df sel \<noteq> []"
    and "length df \<le> length M" and "length df \<le> ncols M"
    and "is_argsort (avg_similarity_scores np_mean M (valid_selected_indices df sel))
      (np_argsort (avg_similarity_scores np_mean M (valid_selected_indices df sel)))"
    and "\<exists>m \<in> set df. movie_id m \<notin> set sel"
  shows "\<exists>m. get_recommendations np_mean np_argsort self sel n = Inr [m] \<and> m \<in> set df \<and>
    movie_id m \<notin> set sel"
proof -
  let ?r = "recommended_indices np_mean np_argsort M df sel n"
  have g: "get_recommendations np_mean np_argsort self sel n = Inr (map (\<lambda>idx. df ! idx) ?r)"
    using assms(2-5) by (rule get_recommendations_built)
  have "eligible_ids df sel \<noteq> []"
    using assms(8) by (auto simp: eligible_ids_def filter_empty_conv)
  then have "min 1 (length (eligible_ids df sel)) = 1"
    by (cases "eligible_ids df sel") simp_all
  then have "length ?r = 1"
    using assms(1,6,7) by (simp add: length_recommended_indices)
  then obtain i where r: "?r = [i]"
    by (cases ?r) auto
  have "i \<in> set ?r" by (simp add: r)
  then have "movie_id (df ! i) \<notin> set sel" and "i < length df"
    by (rule recommended_indices_not_selected, rule recommended_indices_less)
  then show ?thesis using g by (simp add: r)
qed

theorem non_positive_bound_returns_one_witness:
  "(-3::int) \<le> 0 \<and> (\<exists>m \<in> set demo_df. movie_id m \<notin> set [''m0'']) \<and>
   is_argsort (avg_similarity_scores exact_mean demo_matrix (valid_selected_indices demo_df [''m0'']))
     (insertion_argsort
       (avg_similarity_scores exact_mean demo_matrix (valid_selected_indices demo_df [''m0'']))) \<and>
   get_recommendations exact_mean insertion_argsort demo [''m0''] 0 = Inr [demo_df ! 1] \<and>
   get_recommendations exact_mean insertion_argsort demo [''m0''] (-3) = Inr [demo_df ! 1] \<and>
   (\<exists>m. get_recommendations exact_mean insertion_argsort demo [''m0''] (-3) = Inr [m] \<and>
      m \<in> set demo_df \<and> movie_id m \<notin> set [''m0''])"
proof -
  have 1: "(-3::int) \<le> 0" by simp
  have 2: "similarity_matrix demo = Some demo_matrix" by (simp add: demo_def)
  have 3: "movies_df demo = Some demo_df" by (simp add: demo_def)
  have 4: "valid_selected_indices demo_df [''m0''] \<noteq> []" by (simp add: demo_eval)
  have 5: "length demo_df \<le> length demo_matrix" by (simp add: demo_eval)
  have 6: "length demo_df \<le> ncols demo_matrix" by (simp add: demo_eval)
  have 7: "is_argsort
      (avg_similarity_scores exact_mean demo_matrix (valid_selected_indices demo_df [''m0'']))
      (insertion_argsort
        (avg_similarity_scores exact_mean demo_matrix (valid_selected_indices demo_df [''m0''])))"
    by (simp add: demo_eval)
  have 8: "\<exists>m \<in> set demo_df. movie_id m \<notin> set [''m0'']" by (simp add: demo_eval)
  have 9: "get_recommendations exact_mean insertion_argsort demo [''m0''] 0 = Inr [demo_df ! 1]"
    by (simp add: demo_eval)
  have 10: "get_recommendations exact_mean insertion_argsort demo [''m0''] (-3) = Inr [demo_df ! 1]"
    by (simp add: demo_eval)
  from non_positive_bound_returns_one
    [where np_mean = exact_mean and np_argsort = insertion_argsort, OF 1 2 3 4 5 6 7 8]
  show ?thesis
    using 1 7 8 9 10 by blast
qed

section \<open>Claims about the build\<close>

lemmas build_eval = build_similarity_matrix_def corpus_of_def backfilled_def py_any_def
  has_combined_features_column_def max_features_for_def str_split_def isspace_def
  on_exception_def shape0_def shape1_def demo_fit_transform_def demo_cosine_similarity_def
  blank_state_def blanks_state_def

text \<open>
  C6. If every composite feature text of the corpus is the empty string (or there
  is no catalog), the build returns without an exception, whatever the library
  calls would do, and leaves no similarity matrix (\<open>None\<close>), and every later
  query returns the empty list.
\<close>

theorem empty_corpus_fails_soft:
  assumes "\<forall>df. movies_df self = Some df \<longrightarrow> (\<forall>s \<in> set (corpus_of (backfilled df)). s = [])"
  shows "snd (build_similarity_matrix fit_transform cosine_similarity self) = None \<and>
    similarity_matrix (fst (build_similarity_matrix fit_transform cosine_similarity self)) = None \<and>
    (\<forall>sel n. get_recommendations np_mean np_argsort
       (fst (build_similarity_matrix fit_transform cosine_similarity self)) sel n = Inr [])"
proof -
  let ?b = "build_similarity_matrix fit_transform cosine_similarity self"
  have "snd ?b = None \<and> similarity_matrix (fst ?b) = None"
  proof (cases "movies_df self")
    case None
    then show ?thesis by (simp add: build_similarity_matrix_def)
  next
    case (Some df)
    with assms have "\<not> py_any (corpus_of (backfilled df))"
      by (simp add: py_any_iff)
    with Some show ?thesis
      by (simp add: build_similarity_matrix_def Let_def)
  qed
  then show ?thesis by (simp add: get_recommendations_def)
qed

theorem empty_corpus_fails_soft_witness:
  "movies_df blank_state = Some [demo_movie ''b0'' '''', demo_movie ''b1'' ''''] \<and>
   corpus_of (backfilled [demo_movie ''b0'' '''', demo_movie ''b1'' '''']) = ['''', ''''] \<and>
   similarity_matrix blank_state = Some demo_matrix \<and>
   build_similarity_matrix demo_fit_transform demo_cosine_similarity blank_state =
     (blank_state\<lparr>similarity_matrix := None\<rparr>, None) \<and>
   get_recommendations exact_mean insertion_argsort
     (fst (build_similarity_matrix demo_fit_transform demo_cosine_similarity blank_state))
     [''b0''] 5 = Inr []"
proof -
  have 1: "\<forall>df. movies_df blank_state = Some df \<longrightarrow>
      (\<forall>s \<in> set (corpus_of (backfilled df)). s = [])"
    by (simp add: build_eval demo_movie_def)
  have 2: "build_similarity_matrix demo_fit_transform demo_cosine_similarity blank_state =
      (blank_state\<lparr>similarity_matrix := None\<rparr>, None)"
    by (simp add: build_eval demo_movie_def)
  have 3: "similarity_matrix blank_state = Some demo_matrix"
    by (simp add: blank_state_def)
  have 4: "movies_df blank_state = Some [demo_movie ''b0'' '''', demo_movie ''b1'' '''']"
    by (simp add: blank_state_def)
  have 5: "corpus_of (backfilled [demo_movie ''b0'' '''', demo_movie ''b1'' '''']) = ['''', '''']"
    by (simp add: build_eval demo_movie_def)
  from empty_corpus_fails_soft [OF 1, of demo_fit_transform demo_cosine_similarity]
  show ?thesis using 2 3 4 5 by blast
qed

text \<open>
  C7. In every build whose corpus is not all empty, the \<open>max_features\<close> given to
  the vectorizer is 1 if the corpus has no white-space delimited token, and
  otherwise the minimum of 5000 and the number of distinct white-space delimited
  tokens of the whole corpus; the vectorizer is called with this value and the
  corpus, and with nothing else.
\<close>

theorem vocabulary_cap:
  assumes "movies_df self = Some df" and "py_any (corpus_of (backfilled df))"
  shows "vectorizer_max_features (fst (build_similarity_matrix fit_transform cosine_similarity self)) =
      Some (if card (set (str_split (str_join '' '' (corpus_of (backfilled df))))) = 0 then 1
            else min 5000 (card (set (str_split (str_join '' '' (corpus_of (backfilled df))))))) \<and>
    (\<forall>fit_transform'.
       fit_transform' (max_features_for (corpus_of (backfilled df))) (corpus_of (backfilled df)) =
       fit_transform (max_features_for (corpus_of (backfilled df))) (corpus_of (backfilled df)) \<longrightarrow>
       build_similarity_matrix fit_transform' cosine_similarity self =
       build_similarity_matrix fit_transform cosine_similarity self) \<and>
    max_features_for (corpus_of (backfilled df)) =
      (if card (set (str_split (str_join '' '' (corpus_of (backfilled df))))) = 0 then 1
       else min 5000 (card (set (str_split (str_join '' '' (corpus_of (backfilled df)))))))"
proof (intro conjI allI impI)
  show "vectorizer_max_features (fst (build_similarity_matrix fit_transform cosine_similarity self)) =
      Some (if card (set (str_split (str_join '' '' (corpus_of (backfilled df))))) = 0 then 1
            else min 5000 (card (set (str_split (str_join '' '' (corpus_of (backfilled df)))))))"
    using build_similarity_matrix_max_features [OF assms, of fit_transform cosine_similarity]
    by (simp only: max_features_for_eq)
next
  fix fit_transform'
  assume "fit_transform' (max_features_for (corpus_of (backfilled df))) (corpus_of (backfilled df)) =
       fit_transform (max_features_for (corpus_of (backfilled df))) (corpus_of (backfilled df))"
  then show "build_similarity_matrix fit_transform' cosine_similarity self =
       build_similarity_matrix fit_transform cosine_similarity self"
    by (simp only: build_similarity_matrix_vectorized [OF assms] Let_def)
next
  show "max_features_for (corpus_of (backfilled df)) =
      (if card (set (str_split (str_join '' '' (corpus_of (backfilled df))))) = 0 then 1
       else min 5000 (card (set (str_split (str_join '' '' (corpus_of (backfilled df)))))))"
    by (rule max_features_for_eq)
qed

theorem vocabulary_cap_witness:
  "movies_df demo = Some demo_df \<and> py_any (corpus_of (backfilled demo_df)) \<and>
   str_split (str_join '' '' (corpus_of (backfilled demo_df))) =
     [''heist'', ''crew'', ''heist'', ''crew'', ''vault'', ''garden'', ''harbour''] \<and>
   vectorizer_max_features
     (fst (build_similarity_matrix demo_fit_transform demo_cosine_similarity demo)) = Some 5 \<and>
   py_any (corpus_of (backfilled [demo_movie ''w0'' ''  ''])) \<and>
   str_split (str_join '' '' (corpus_of (backfilled [demo_movie ''w0'' ''  '']))) = [] \<and>
   vectorizer_max_features
     (fst (build_similarity_matrix demo_fit_transform demo_cosine_similarity blanks_state)) = Some 1"
proof -
  have 1: "movies_df demo = Some demo_df" by (simp add: demo_def)
  have 2: "py_any (corpus_of (backfilled demo_df))"
    by (simp add: build_eval demo_df_def demo_movie_def)
  have 3: "str_split (str_join '' '' (corpus_of (backfilled demo_df))) =
      [''heist'', ''crew'', ''heist'', ''crew'', ''vault'', ''garden'', ''harbour'']"
    by (simp add: build_eval demo_df_def demo_movie_def)
  have 4: "movies_df blanks_state = Some [demo_movie ''w0'' ''  '']"
    by (simp add: blanks_state_def)
  have 5: "py_any (corpus_of (backfilled [demo_movie ''w0'' ''  '']))"
    by (simp add: build_eval demo_movie_def)
  have 6: "str_split (str_join '' '' (corpus_of (backfilled [demo_movie ''w0'' ''  '']))) = []"
    by (simp add: build_eval demo_movie_def)
  have 7: "card (set [''heist'', ''crew'', ''heist'', ''crew'', ''vault'', ''garden'', ''harbour'']) = 5"
    unfolding length_remdups_card_conv [symmetric] by simp
  from vocabulary_cap [OF 1 2, of demo_fit_transform demo_cosine_similarity, THEN conjunct1]
  have a: "vectorizer_max_features
      (fst (build_similarity_matrix demo_fit_transform demo_cosine_similarity demo)) = Some 5"
    by (simp only: 3 7) simp
  from vocabulary_cap [OF 4 5, of demo_fit_transform demo_cosine_similarity, THEN conjunct1]
  have b: "vectorizer_max_features
      (fst (build_similarity_matrix demo_fit_transform demo_cosine_similarity blanks_state)) = Some 1"
    by (simp only: 6) simp
  from a b show ?thesis using 1 2 3 5 6 by blast
qed

text \<open>
  C8. Two recommenders that hold the same catalog, whatever matrix and
  vectorizer an earlier build has left in them: either build returns normally
  exactly when the other does, and then both leave the same similarity matrix
  and the same catalog, and every query gives the same result on both. (The
  library calls are functions of their arguments.)
\<close>

theorem build_and_query_determined_by_catalog:
  assumes "movies_df s1 = movies_df s2"
    and "snd (build_similarity_matrix fit_transform cosine_similarity s1) = None"
  shows "snd (build_similarity_matrix fit_transform cosine_similarity s2) = None \<and>
    similarity_matrix (fst (build_similarity_matrix fit_transform cosine_similarity s1)) =
    similarity_matrix (fst (build_similarity_matrix fit_transform cosine_similarity s2)) \<and>
    (\<forall>sel n.
       get_recommendations np_mean np_argsort (fst (build_similarity_matrix fit_transform cosine_similarity s1)) sel n =
       get_recommendations np_mean np_argsort (fst (build_similarity_matrix fit_transform cosine_similarity s2)) sel n)"
proof -
  let ?b1 = "build_similarity_matrix fit_transform cosine_similarity s1"
  let ?b2 = "build_similarity_matrix fit_transform cosine_similarity s2"
  have a: "snd ?b2 = None"
    using build_similarity_matrix_catalog_only(1) [OF assms(1), of fit_transform cosine_similarity]
      assms(2) by simp
  have b: "similarity_matrix (fst ?b1) = similarity_matrix (fst ?b2)"
    using assms by (rule build_similarity_matrix_catalog_only(2))
  have c: "movies_df (fst ?b1) = movies_df (fst ?b2)"
    using assms(1) by (rule build_similarity_matrix_catalog_only(3))
  have "get_recommendations np_mean np_argsort (fst ?b1) sel n = get_recommendations np_mean np_argsort (fst ?b2) sel n" for sel n
    using b c by (rule get_recommendations_state)
  with a b show ?thesis by blast
qed

theorem build_and_query_determined_by_catalog_witness:
  "movies_df demo = movies_df (demo\<lparr>similarity_matrix := None, vectorizer_max_features := None\<rparr>) \<and>
   snd (build_similarity_matrix demo_fit_transform demo_cosine_similarity demo) = None \<and>
   similarity_matrix (fst (build_similarity_matrix demo_fit_transform demo_cosine_similarity demo)) =
     Some demo_matrix \<and>
   similarity_matrix (fst (build_similarity_matrix demo_fit_transform demo_cosine_similarity
     (demo\<lparr>similarity_matrix := None, vectorizer_max_features := None\<rparr>))) = Some demo_matrix \<and>
   get_recommendations exact_mean insertion_argsort (fst (build_similarity_matrix demo_fit_transform demo_cosine_similarity
     (demo\<lparr>similarity_matrix := None, vectorizer_max_features := None\<rparr>))) [''m0''] 2 =
   get_recommendations exact_mean insertion_argsort (fst (build_similarity_matrix demo_fit_transform demo_cosine_similarity demo))
     [''m0''] 2"
proof -
  let ?s2 = "demo\<lparr>similarity_matrix := None, vectorizer_max_features := None\<rparr>"
  have 1: "movies_df demo = movies_df ?s2" by simp
  have 2: "snd (build_similarity_matrix demo_fit_transform demo_cosine_similarity demo) = None"
    by (simp add: build_eval demo_def demo_df_def demo_movie_def)
  have 3: "similarity_matrix
      (fst (build_similarity_matrix demo_fit_transform demo_cosine_similarity demo)) = Some demo_matrix"
    by (simp add: build_eval demo_def demo_df_def demo_movie_def)
  from build_and_query_determined_by_catalog [OF 1 2] show ?thesis
    using 1 2 3 by simp
qed

end
